theory Spec2Isabelle
  imports Main "HOL-Library.Word"
begin

section \<open>X11TouchMultiWindow pointer system: data model\<close>

text \<open>
  A shallow embedding of \<^verbatim>\<open>X11TouchMultiWindowPointerSystem.cpp\<close>. The class
  \<^verbatim>\<open>PointerSystem\<close> is a record of its four members; everything the methods touch
  outside the object (the X connection and its event queue, the server's window tree,
  the host's message sink, the heap of handler objects and returned arrays) is the
  record \<open>world\<close>, passed in and returned.
\<close>

type_synonym ptr = nat
  \<comment> \<open>a non-null heap address; a pointer that may be \<^verbatim>\<open>NULL\<close> is a \<open>ptr option\<close>\<close>

type_synonym Display = nat
  \<comment> \<open>an open \<^verbatim>\<open>Display*\<close>; \<^verbatim>\<open>NULL\<close> is \<open>None\<close>\<close>

type_synonym Window = "64 word"
  \<comment> \<open>\<^verbatim>\<open>typedef unsigned long XID\<close>\<close>

type_synonym callback = nat
  \<comment> \<open>a function pointer handed in by the host\<close>

text \<open>
  Modelled from the spec: the enumeration \<^verbatim>\<open>Result\<close> is declared in
  \<^verbatim>\<open>X11TouchMultiWindowCommon.h\<close>, which is not among the sources. The spec gives the
  closed taxonomy \<^verbatim>\<open>OK\<close>, \<^verbatim>\<open>ERROR_API\<close>, \<^verbatim>\<open>ERROR_DUPLICATE_ITEM\<close>,
  \<^verbatim>\<open>ERROR_NULL_POINTER\<close>.
\<close>

datatype Result = OK | ERROR_API | ERROR_DUPLICATE_ITEM | ERROR_NULL_POINTER

text \<open>
  Modelled from the spec: \<^verbatim>\<open>MessageType\<close> comes from the same missing header; the
  spec names the severities \<^verbatim>\<open>ERROR\<close> and \<^verbatim>\<open>WARNING\<close>, the two this file uses.
\<close>

datatype MessageType = ERROR | WARNING

subsection \<open>The X server's window tree\<close>

text \<open>
  What \<^verbatim>\<open>XGetWindowProperty\<close> answers for the process-id atom of one window, as far as
  the code looks at it: a status other than \<^verbatim>\<open>Success\<close>; \<^verbatim>\<open>Success\<close> with a null
  \<^verbatim>\<open>prop_return\<close>; or \<^verbatim>\<open>Success\<close> with a buffer whose first \<^verbatim>\<open>unsigned long\<close> is the
  given value.
\<close>

datatype xprop = GetPropertyFailed | PropertyAbsent | PropertyData "64 word"

text \<open>
  One window of the tree: its identifier, the answer to the property read, and the answer
  to \<^verbatim>\<open>XQueryTree\<close>: \<open>None\<close> when the query returns 0, otherwise the children in the
  order of the returned array.
\<close>

datatype xwindow = XWindow (wid: Window) (pid_property: xprop) (query_tree: "xwindow list option")

subsection \<open>Events\<close>

text \<open>
  An \<^verbatim>\<open>XIDeviceEvent\<close> as far as \<^verbatim>\<open>processEventQueue\<close> reads it: its field
  \<^verbatim>\<open>event\<close>, the window the event is reported to.
\<close>

record XIDeviceEvent =
  xi_event :: Window

text \<open>
  An \<^verbatim>\<open>XEvent\<close> as far as \<^verbatim>\<open>processEventQueue\<close> reads it: \<^verbatim>\<open>e.type\<close>,
  \<^verbatim>\<open>e.xcookie.extension\<close> and the pointer \<^verbatim>\<open>e.xcookie.data\<close>, where \<open>None\<close> is
  \<^verbatim>\<open>NULL\<close> and \<open>Some d\<close> points to the device event \<open>d\<close>.
\<close>

record XEvent =
  ev_type :: int
  xcookie_extension :: int
  xcookie_data :: "XIDeviceEvent option"

text \<open>
  How a call of the program ends: it returns a value; it blocks inside Xlib waiting for
  an event; or it reads through a null pointer, after which nothing is defined.
\<close>

datatype 'a run = Returns 'a | Blocks | NullDereference

definition GenericEvent :: int where
  "GenericEvent = 35"

definition BadRequest :: int where
  "BadRequest = 1"

subsection \<open>Objects and the world around them\<close>

text \<open>
  Modelled from the spec: the class \<^verbatim>\<open>PointerHandler\<close> lives in
  \<^verbatim>\<open>X11TouchMultiWindowPointerHandler.h\<close>, which is not among the sources. A handler is
  "bound to the connection, the window, the message sink, and the caller's event
  callback" (the four constructor arguments), and \<^verbatim>\<open>getWindow()\<close> returns "the
  handler's own recorded window".
\<close>

record PointerHandler =
  hDisplay :: "Display option"
  hWindow :: Window
  hMessageCallback :: callback
  hPointerCallback :: callback

definition getWindow :: "PointerHandler \<Rightarrow> Window" where
  "getWindow h = hWindow h"

text \<open>
  The members of \<^verbatim>\<open>class PointerSystem\<close>. \<^verbatim>\<open>std::map<Window, PointerHandler*>\<close> is a
  finite map from windows to handler addresses.
\<close>

record PointerSystem =
  mDisplay :: "Display option"
  mOpcode :: int
  mMessageCallback :: callback
  mPointerHandlers :: "Window \<rightharpoonup> ptr"

text \<open>
  Everything outside the object.
  \<^item> \<open>connections\<close>: the display connections that are open;
  \<^item> \<open>queue\<close>: the events already in Xlib's queue of the connection, oldest first;
  \<^item> \<open>dequeued\<close>: every event \<^verbatim>\<open>XNextEvent\<close> has handed out, in order, as it was
    handed out;
  \<^item> \<open>root_window\<close>: the window tree under \<^verbatim>\<open>XDefaultRootWindow\<close>;
  \<^item> \<open>sent\<close>: every call of \<^verbatim>\<open>sendMessage\<close>, in order;
  \<^item> \<open>processed\<close>: every call of \<^verbatim>\<open>PointerHandler::processEvent\<close>, in order;
  \<^item> \<open>handlers\<close>, \<open>arrays\<close>, \<open>systems\<close>: the live heap objects of each kind;
  \<^item> \<open>next_ptr\<close>: the address the next \<^verbatim>\<open>new\<close> returns.
\<close>

record world =
  connections :: "Display set"
  queue :: "XEvent list"
  dequeued :: "XEvent list"
  root_window :: xwindow
  sent :: "(callback \<times> MessageType \<times> string) list"
  processed :: "(ptr \<times> XEvent) list"
  handlers :: "ptr \<rightharpoonup> PointerHandler"
  arrays :: "ptr \<rightharpoonup> Window list"
  systems :: "ptr \<rightharpoonup> PointerSystem"
  next_ptr :: ptr

text \<open>
  What the X server answers during one run of \<^verbatim>\<open>initialize\<close>: the result of
  \<^verbatim>\<open>XOpenDisplay\<close>; of \<^verbatim>\<open>XQueryExtension\<close> (the returned flag and the major opcode it
  stores); of \<^verbatim>\<open>XIQueryVersion\<close> (the status and the major and minor version it stores).
\<close>

record xserver =
  XOpenDisplay_ret :: "Display option"
  XQueryExtension_ret :: "bool \<times> int"
  XIQueryVersion_ret :: "int \<times> int \<times> int"

section \<open>Library calls\<close>

subsection \<open>\<^verbatim>\<open>std::to_string\<close>\<close>

definition digit_char :: "nat \<Rightarrow> char" where
  "digit_char d = ''0123456789'' ! d"

fun to_string_nat :: "nat \<Rightarrow> string" where
  "to_string_nat n =
     (if n < 10 then [digit_char n] else to_string_nat (n div 10) @ [digit_char (n mod 10)])"

declare to_string_nat.simps [simp del]

definition to_string_int :: "int \<Rightarrow> string" where
  "to_string_int i = (if i < 0 then CHR ''-'' # to_string_nat (nat (- i)) else to_string_nat (nat i))"

subsection \<open>Message sink, heap, Xlib\<close>

text \<open>
  Modelled from the spec: \<^verbatim>\<open>sendMessage\<close> is declared in
  \<^verbatim>\<open>X11TouchMultiWindowUtils.h\<close>, which is not among the sources; it invokes the
  message-sink callback "with a severity and a human-readable string".
\<close>

definition sendMessage :: "callback \<Rightarrow> MessageType \<Rightarrow> string \<Rightarrow> world \<Rightarrow> world" where
  "sendMessage cb t text w = w\<lparr>sent := sent w @ [(cb, t, text)]\<rparr>"

definition new_PointerHandler :: "PointerHandler \<Rightarrow> world \<Rightarrow> ptr \<times> world" where
  "new_PointerHandler obj w =
     (next_ptr w, w\<lparr>handlers := (handlers w)(next_ptr w \<mapsto> obj), next_ptr := Suc (next_ptr w)\<rparr>)"

definition delete_PointerHandler :: "ptr \<Rightarrow> world \<Rightarrow> world" where
  "delete_PointerHandler p w = w\<lparr>handlers := (handlers w)(p := None)\<rparr>"

definition new_PointerSystem :: "PointerSystem \<Rightarrow> world \<Rightarrow> ptr \<times> world" where
  "new_PointerSystem obj w =
     (next_ptr w, w\<lparr>systems := (systems w)(next_ptr w \<mapsto> obj), next_ptr := Suc (next_ptr w)\<rparr>)"

definition new_array :: "Window list \<Rightarrow> world \<Rightarrow> ptr \<times> world" where
  "new_array xs w =
     (next_ptr w, w\<lparr>arrays := (arrays w)(next_ptr w \<mapsto> xs), next_ptr := Suc (next_ptr w)\<rparr>)"

text \<open>
  \<^verbatim>\<open>delete[]\<close> on the address of a live array frees the array. On any other address
  (an array already freed, an address never allocated) the behaviour is undefined: the
  value \<open>None\<close>.
\<close>

definition delete_array :: "ptr \<Rightarrow> world \<Rightarrow> world option" where
  "delete_array p w =
     (case arrays w p of
        None \<Rightarrow> None
      | Some _ \<Rightarrow> Some (w\<lparr>arrays := (arrays w)(p := None)\<rparr>))"

definition XOpenDisplay :: "xserver \<Rightarrow> world \<Rightarrow> Display option \<times> world" where
  "XOpenDisplay x w =
     (case XOpenDisplay_ret x of
        None \<Rightarrow> (None, w)
      | Some d \<Rightarrow> (Some d, w\<lparr>connections := insert d (connections w)\<rparr>))"

definition XCloseDisplay :: "Display \<Rightarrow> world \<Rightarrow> world" where
  "XCloseDisplay d w = w\<lparr>connections := connections w - {d}\<rparr>"

text \<open>\<^verbatim>\<open>XEventsQueued(dpy, QueuedAlready)\<close>: the number of events already in the queue.\<close>

definition XEventsQueued :: "world \<Rightarrow> int" where
  "XEventsQueued w = int (length (queue w))"

text \<open>
  A generic event is an event cookie: Xlib queues it with the data its extension
  allocated, and when \<^verbatim>\<open>XNextEvent\<close> copies it to the caller it keeps the data back and
  sets \<^verbatim>\<open>xcookie.data\<close> to \<^verbatim>\<open>NULL\<close>; only \<^verbatim>\<open>XGetEventData\<close> hands the data out.
  \<open>unclaimed e\<close> is the event \<open>e\<close> of the queue as \<^verbatim>\<open>XNextEvent\<close> stores it in the
  caller's \<^verbatim>\<open>XEvent\<close>.
\<close>

definition unclaimed :: "XEvent \<Rightarrow> XEvent" where
  "unclaimed e = (if ev_type e = GenericEvent then e\<lparr>xcookie_data := None\<rparr> else e)"

text \<open>
  \<^verbatim>\<open>XNextEvent\<close> removes the oldest event of the queue and hands it out. On an empty
  queue it blocks until an event arrives: the value \<open>None\<close>.
\<close>

definition XNextEvent :: "world \<Rightarrow> (XEvent \<times> world) option" where
  "XNextEvent w =
     (case queue w of
        [] \<Rightarrow> None
      | e # q \<Rightarrow> Some (unclaimed e, w\<lparr>queue := q, dequeued := dequeued w @ [unclaimed e]\<rparr>))"

text \<open>
  Modelled from the spec: \<^verbatim>\<open>PointerHandler::processEvent\<close> is not among the sources;
  the raw event "is forwarded to it unmodified" and what the handler does with it is out
  of scope. The call is recorded, with the event whose device data was passed.
\<close>

definition processEvent :: "ptr \<Rightarrow> XEvent \<Rightarrow> world \<Rightarrow> world" where
  "processEvent handler e w = w\<lparr>processed := processed w @ [(handler, e)]\<rparr>"

text \<open>Events that reach the connection's queue from outside while a call is running.\<close>

definition enqueue :: "XEvent list \<Rightarrow> world \<Rightarrow> world" where
  "enqueue es w = w\<lparr>queue := queue w @ es\<rparr>"

text \<open>\<^verbatim>\<open>std::map::insert\<close> stores the pair unless the key is already present.\<close>

definition map_insert :: "'k \<Rightarrow> 'v \<Rightarrow> ('k \<rightharpoonup> 'v) \<Rightarrow> ('k \<rightharpoonup> 'v)" where
  "map_insert k v m = (case m k of None \<Rightarrow> m(k \<mapsto> v) | Some _ \<Rightarrow> m)"

section \<open>The methods of \<^verbatim>\<open>PointerSystem\<close>\<close>

subsection \<open>Construction and bootstrap\<close>

definition PointerSystem_ctor :: "callback \<Rightarrow> PointerSystem" where
  "PointerSystem_ctor messageCallback =
     \<lparr>mDisplay = None, mOpcode = 0, mMessageCallback = messageCallback,
      mPointerHandlers = Map.empty\<rparr>"

definition initialize :: "xserver \<Rightarrow> PointerSystem \<Rightarrow> world \<Rightarrow> Result \<times> PointerSystem \<times> world" where
  "initialize x s w =
     (let (dpy, w1) = XOpenDisplay x w;
          s1 = s\<lparr>mDisplay := dpy\<rparr>
      in case mDisplay s1 of
        None \<Rightarrow>
          (ERROR_API, s1,
           sendMessage (mMessageCallback s1) ERROR ''Failed to open X11 display connection.'' w1)
      | Some d \<Rightarrow>
          (let (present, opcode) = XQueryExtension_ret x;
               s2 = s1\<lparr>mOpcode := opcode\<rparr>
           in if \<not> present then
                (let w2 = sendMessage (mMessageCallback s2) ERROR
                            ''Failed to get the XInput extension.'' w1;
                     w3 = XCloseDisplay d w2;
                     s3 = s2\<lparr>mDisplay := None\<rparr>
                 in (ERROR_API, s3, w3))
              else
                (let (status, major, minor) = XIQueryVersion_ret x
                 in if status = BadRequest then
                      (let w2 = sendMessage (mMessageCallback s2) ERROR
                                  (''Unsupported XInput extension version: expected 2.3+, actual ''
                                   @ to_string_int major @ ''.'' @ to_string_int minor) w1;
                           w3 = XCloseDisplay d w2;
                           s3 = s2\<lparr>mDisplay := None\<rparr>
                       in (ERROR_API, s3, w3))
                    else (OK, s2, w1))))"

subsection \<open>The handler registry\<close>

text \<open>
  \<^verbatim>\<open>createHandler\<close> returns the result code, what it stored in \<^verbatim>\<open>*handle\<close> (\<open>None\<close>
  when the slot was not written), the object and the world.

  Modelled from the spec: \<^verbatim>\<open>PointerHandler::initialize\<close> is not among the sources; the
  spec calls it "the handler's own initialization", whose result is propagated. It is the
  parameter \<open>hinit\<close>, applied to the object and the world as they are when the call is
  made and to the handler's address.
\<close>

definition createHandler ::
  "(PointerSystem \<Rightarrow> world \<Rightarrow> ptr \<Rightarrow> Result) \<Rightarrow> Window \<Rightarrow> callback \<Rightarrow> PointerSystem \<Rightarrow> world
     \<Rightarrow> Result \<times> ptr option \<times> PointerSystem \<times> world" where
  "createHandler hinit window pointerCallback s w =
     (if mPointerHandlers s window \<noteq> None then
        (ERROR_DUPLICATE_ITEM, None, s,
         sendMessage (mMessageCallback s) ERROR
           (''A handler has already been created for window '' @ to_string_nat (unat window)) w)
      else
        (let (handler, w1) =
               new_PointerHandler
                 \<lparr>hDisplay = mDisplay s, hWindow = window,
                  hMessageCallback = mMessageCallback s, hPointerCallback = pointerCallback\<rparr> w;
             handle = Some handler;
             s1 = s\<lparr>mPointerHandlers := map_insert window handler (mPointerHandlers s)\<rparr>
         in (hinit s1 w1 handler, handle, s1, w1)))"

text \<open>\<^verbatim>\<open>getHandler\<close>: \<open>None\<close> is \<^verbatim>\<open>nullptr\<close>.\<close>

definition getHandler :: "Window \<Rightarrow> PointerSystem \<Rightarrow> ptr option" where
  "getHandler window s =
     (case mPointerHandlers s window of Some h \<Rightarrow> Some h | None \<Rightarrow> None)"

text \<open>
  \<^verbatim>\<open>destroyHandler\<close> reads the handler's window through the pointer it is given. When
  the pointer is not the address of a live handler the read is undefined: the value
  \<open>None\<close>.
\<close>

definition destroyHandler ::
  "ptr \<Rightarrow> PointerSystem \<Rightarrow> world \<Rightarrow> (Result \<times> PointerSystem \<times> world) option" where
  "destroyHandler handler s w =
     (case handlers w handler of
        None \<Rightarrow> None
      | Some obj \<Rightarrow>
          (let window = getWindow obj;
               s1 = (if mPointerHandlers s window \<noteq> None
                     then s\<lparr>mPointerHandlers := (mPointerHandlers s)(window := None)\<rparr>
                     else s);
               w1 = delete_PointerHandler handler w
           in Some (OK, s1, w1)))"

subsection \<open>The event loop\<close>


text \<open>
  The body of the \<^verbatim>\<open>while\<close> loop after \<^verbatim>\<open>XNextEvent\<close> has filled \<^verbatim>\<open>e\<close>. For an
  event that passes the filter the code casts \<^verbatim>\<open>e.xcookie.data\<close> to an
  \<^verbatim>\<open>XIDeviceEvent*\<close> and reads \<^verbatim>\<open>xiEvent->event\<close>; the code does not call
  \<^verbatim>\<open>XGetEventData\<close>. When the pointer is null the read is undefined: the value \<open>None\<close>.
\<close>

definition processEventQueue_body :: "PointerSystem \<Rightarrow> XEvent \<Rightarrow> world \<Rightarrow> world option" where
  "processEventQueue_body s e w =
     (if ev_type e \<noteq> GenericEvent \<or> xcookie_extension e \<noteq> mOpcode s then Some w
      else
        (case xcookie_data e of
           None \<Rightarrow> None
         | Some xiEvent \<Rightarrow>
             (let window = xi_event xiEvent
              in case mPointerHandlers s window of
                   None \<Rightarrow>
                     Some (sendMessage (mMessageCallback s) WARNING
                       (''Failed to retrieve handler for window '' @ to_string_nat (unat window)) w)
                 | Some handler \<Rightarrow> Some (processEvent handler e w))))"

text \<open>
  The loop tests \<^verbatim>\<open>XEventsQueued\<close> before every event. \<open>arrivals\<close> lists what reaches
  the queue from outside while the call runs: its first element arrives while the first
  event is being handled, the second during the second, and so on; nothing arrives once
  the list is used up.
\<close>

function processEventQueue_loop :: "XEvent list list \<Rightarrow> PointerSystem \<Rightarrow> world \<Rightarrow> world run" where
  "processEventQueue_loop arrivals s w =
     (if XEventsQueued w \<noteq> 0 then
        (case XNextEvent w of
           None \<Rightarrow> Blocks
         | Some (e, w1) \<Rightarrow>
             (case processEventQueue_body s e w1 of
                None \<Rightarrow> NullDereference
              | Some w2 \<Rightarrow>
                  processEventQueue_loop (tl arrivals) s
                    (enqueue (case arrivals of [] \<Rightarrow> [] | es # _ \<Rightarrow> es) w2)))
      else Returns w)"
  by pat_completeness auto

termination processEventQueue_loop
  by (relation "measure (\<lambda>(arrivals, s, w). length (queue w) + sum_list (map length arrivals))")
     (auto simp: XNextEvent_def enqueue_def processEventQueue_body_def sendMessage_def
                 processEvent_def Let_def split: list.splits option.splits if_splits)

declare processEventQueue_loop.simps [simp del]

definition processEventQueue :: "XEvent list list \<Rightarrow> PointerSystem \<Rightarrow> world \<Rightarrow> (Result \<times> world) run" where
  "processEventQueue arrivals s w =
     (case processEventQueue_loop arrivals s w of
        Returns w' \<Rightarrow> Returns (OK, w')
      | Blocks \<Rightarrow> Blocks
      | NullDereference \<Rightarrow> NullDereference)"

subsection \<open>Windows of a process\<close>

text \<open>
  The recursive overload. The model is handed the node of the server's tree that the
  window identifier names; \<open>windows\<close> is the vector passed by reference.
\<close>

fun getWindowsOfProcess_rec :: "xwindow \<Rightarrow> 64 word \<Rightarrow> Window list \<Rightarrow> Window list" where
  "getWindowsOfProcess_rec (XWindow window propPID tree) pid windows =
     (let windows1 =
            (case propPID of
               GetPropertyFailed \<Rightarrow> windows
             | PropertyAbsent \<Rightarrow> windows
             | PropertyData windowPID \<Rightarrow>
                 if windowPID = pid then windows @ [window] else windows)
      in case tree of
           None \<Rightarrow> windows1
         | Some childWindows \<Rightarrow>
             fold (\<lambda>child ws. getWindowsOfProcess_rec child pid ws) childWindows windows1)"

text \<open>
  The public overload. \<open>windows_given\<close> says whether the \<^verbatim>\<open>Window**\<close> argument is
  non-null. The result carries what was stored in \<^verbatim>\<open>*windows\<close> and in \<^verbatim>\<open>*numWindows\<close>
  (a 32-bit \<^verbatim>\<open>uint\<close>), \<open>None\<close> when nothing was stored.
\<close>

definition getWindowsOfProcess ::
  "64 word \<Rightarrow> bool \<Rightarrow> PointerSystem \<Rightarrow> world \<Rightarrow> Result \<times> (ptr \<times> 32 word) option \<times> world" where
  "getWindowsOfProcess pid windows_given s w =
     (if \<not> windows_given then (ERROR_NULL_POINTER, None, w)
      else
        (let defaultRootWindow = root_window w;
             result = getWindowsOfProcess_rec defaultRootWindow pid [];
             numWindows = (word_of_nat (length result) :: 32 word);
             (windows, w1) = new_array result w
         in (OK, Some (windows, numWindows), w1)))"

text \<open>\<^verbatim>\<open>freeWindowsOfProcess\<close>: \<open>None\<close> is the undefined behaviour of \<^verbatim>\<open>delete[]\<close>.\<close>

definition freeWindowsOfProcess ::
  "ptr option \<Rightarrow> PointerSystem \<Rightarrow> world \<Rightarrow> (Result \<times> world) option" where
  "freeWindowsOfProcess windows s w =
     (case windows of
        None \<Rightarrow> Some (ERROR_NULL_POINTER, w)
      | Some a \<Rightarrow>
          (case delete_array a w of
             None \<Rightarrow> None
           | Some w1 \<Rightarrow> Some (OK, w1)))"

subsection \<open>Teardown and the exported interface\<close>

text \<open>
  The destructor deletes every handler the registry points to, clears the registry and
  closes the connection if there is one. When the registry points to an object that is
  not a live handler, or to one handler under two windows, \<^verbatim>\<open>delete it->second\<close> is
  undefined: the value \<open>None\<close>.
\<close>

definition PointerSystem_dtor :: "PointerSystem \<Rightarrow> world \<Rightarrow> (PointerSystem \<times> world) option" where
  "PointerSystem_dtor s w =
     (if ran (mPointerHandlers s) \<subseteq> dom (handlers w)
         \<and> inj_on (mPointerHandlers s) (dom (mPointerHandlers s)) then
        (let w1 = w\<lparr>handlers := (\<lambda>h. if h \<in> ran (mPointerHandlers s) then None else handlers w h)\<rparr>;
             s1 = s\<lparr>mPointerHandlers := Map.empty\<rparr>
         in case mDisplay s1 of
              None \<Rightarrow> Some (s1, w1)
            | Some d \<Rightarrow> Some (s1\<lparr>mDisplay := None\<rparr>, XCloseDisplay d w1))
      else None)"

text \<open>
  \<^verbatim>\<open>PointerSystem_Create\<close> returns the result code, what it stored in \<^verbatim>\<open>*handle\<close>, and
  the world, in which the new object has the members \<^verbatim>\<open>initialize\<close> left it with.
\<close>

definition PointerSystem_Create :: "xserver \<Rightarrow> callback \<Rightarrow> world \<Rightarrow> Result \<times> ptr option \<times> world" where
  "PointerSystem_Create x messageCallback w =
     (let (system, w1) = new_PointerSystem (PointerSystem_ctor messageCallback) w;
          handle = Some system;
          (r, s', w2) = initialize x (PointerSystem_ctor messageCallback) w1
      in (r, handle, w2\<lparr>systems := (systems w2)(system \<mapsto> s')\<rparr>))"

text \<open>
  \<^verbatim>\<open>PointerSystem_Destroy\<close>: \<^verbatim>\<open>delete\<close> on a null pointer does nothing; on the address
  of a live object it runs the destructor and frees the object; on any other address the
  behaviour is undefined (\<open>None\<close>).
\<close>

definition PointerSystem_Destroy :: "ptr option \<Rightarrow> world \<Rightarrow> (Result \<times> world) option" where
  "PointerSystem_Destroy system w =
     (case system of
        None \<Rightarrow> Some (OK, w)
      | Some p \<Rightarrow>
          (case systems w p of
             None \<Rightarrow> None
           | Some s \<Rightarrow>
               (case PointerSystem_dtor s w of
                  None \<Rightarrow> None
                | Some (s1, w1) \<Rightarrow> Some (OK, w1\<lparr>systems := (systems w1)(p := None)\<rparr>))))"

section \<open>Notions used to state the properties\<close>

text \<open>
  The windows of a tree in pre-order: a window, then the subtrees of its children from
  first to last. A window whose tree query fails has no children the walk can see.
\<close>

fun tree_windows :: "xwindow \<Rightarrow> xwindow list" where
  "tree_windows (XWindow window propPID tree) =
     XWindow window propPID tree #
       (case tree of None \<Rightarrow> [] | Some childWindows \<Rightarrow> concat (map tree_windows childWindows))"

text \<open>The process-id property of a window is present and equals \<open>pid\<close>.\<close>

definition pid_matches :: "64 word \<Rightarrow> xwindow \<Rightarrow> bool" where
  "pid_matches pid n = (pid_property n = PropertyData pid)"

definition matching_windows :: "64 word \<Rightarrow> xwindow \<Rightarrow> Window list" where
  "matching_windows pid t = map wid (filter (pid_matches pid) (tree_windows t))"

text \<open>An event of the generic category that carries the negotiated opcode.\<close>

definition is_extension_event :: "PointerSystem \<Rightarrow> XEvent \<Rightarrow> bool" where
  "is_extension_event s e = (ev_type e = GenericEvent \<and> xcookie_extension e = mOpcode s)"

subsection \<open>Concrete inputs\<close>

definition empty_world :: world where
  "empty_world =
     \<lparr>connections = {}, queue = [], dequeued = [],
      root_window = XWindow 0 PropertyAbsent (Some []),
      sent = [], processed = [], handlers = Map.empty, arrays = Map.empty,
      systems = Map.empty, next_ptr = 1\<rparr>"

text \<open>
  A root (window 100, no property) with four children: W1 (pid 7); W2 (pid 9) with the
  child W3 (pid 7); W4, whose property read and tree query both fail; and W5 (pid 7),
  whose tree query fails.
\<close>

definition example_tree :: xwindow where
  "example_tree =
     XWindow 100 PropertyAbsent (Some
       [XWindow 1 (PropertyData 7) (Some []),
        XWindow 2 (PropertyData 9) (Some [XWindow 3 (PropertyData 7) None]),
        XWindow 4 GetPropertyFailed None,
        XWindow 5 (PropertyData 7) None])"

text \<open>Answers of the X server for one run of \<^verbatim>\<open>initialize\<close>: the extension is missing; the
  version query answers \<^verbatim>\<open>BadRequest\<close>; everything succeeds; the display cannot be opened.\<close>

definition failing_extension_server :: xserver where
  "failing_extension_server =
     \<lparr>XOpenDisplay_ret = Some 7, XQueryExtension_ret = (False, 0), XIQueryVersion_ret = (0, 2, 3)\<rparr>"

definition old_version_server :: xserver where
  "old_version_server =
     \<lparr>XOpenDisplay_ret = Some 7, XQueryExtension_ret = (True, 131), XIQueryVersion_ret = (BadRequest, 1, 5)\<rparr>"

definition good_server :: xserver where
  "good_server =
     \<lparr>XOpenDisplay_ret = Some 8, XQueryExtension_ret = (True, 131), XIQueryVersion_ret = (0, 2, 3)\<rparr>"

definition no_display_server :: xserver where
  "no_display_server =
     \<lparr>XOpenDisplay_ret = None, XQueryExtension_ret = (True, 131), XIQueryVersion_ret = (0, 2, 3)\<rparr>"

text \<open>Handler initializations: one that succeeds, one that fails.\<close>

definition init_ok :: "PointerSystem \<Rightarrow> world \<Rightarrow> ptr \<Rightarrow> Result" where
  "init_ok s w h = OK"

definition init_fails :: "PointerSystem \<Rightarrow> world \<Rightarrow> ptr \<Rightarrow> Result" where
  "init_fails s w h = ERROR_API"

text \<open>An initialization that succeeds exactly when the registry already holds the
  handler under its window at the time of the call.\<close>

definition init_checks_registry :: "PointerSystem \<Rightarrow> world \<Rightarrow> ptr \<Rightarrow> Result" where
  "init_checks_registry s w h =
     (case handlers w h of
        None \<Rightarrow> ERROR_NULL_POINTER
      | Some obj \<Rightarrow> if mPointerHandlers s (hWindow obj) = Some h then OK else ERROR_API)"


text \<open>
  A system after a successful bootstrap against \<open>good_server\<close> and one
  \<^verbatim>\<open>createHandler\<close>, for window 10: the handler is the object at address 1.
\<close>

definition example_system :: PointerSystem where
  "example_system =
     \<lparr>mDisplay = Some 8, mOpcode = 131, mMessageCallback = 0,
      mPointerHandlers = [10 \<mapsto> 1]\<rparr>"

definition example_world :: world where
  "example_world =
     \<lparr>connections = {8}, queue = [], dequeued = [],
      root_window = XWindow 0 PropertyAbsent (Some []),
      sent = [], processed = [],
      handlers = [1 \<mapsto> \<lparr>hDisplay = Some 8, hWindow = 10,
                          hMessageCallback = 0, hPointerCallback = 4\<rparr>],
      arrays = Map.empty, systems = Map.empty, next_ptr = 2\<rparr>"

text \<open>A core event of the given type, as it lies in the queue.\<close>

definition core_event :: "int \<Rightarrow> XEvent" where
  "core_event t = \<lparr>ev_type = t, xcookie_extension = 0, xcookie_data = None\<rparr>"

text \<open>
  A device event of the extension with the given opcode for the given window, as it lies
  in the queue: a generic event whose cookie data is the device event.
\<close>

definition xi2_event :: "int \<Rightarrow> Window \<Rightarrow> XEvent" where
  "xi2_event opcode window =
     \<lparr>ev_type = GenericEvent, xcookie_extension = opcode,
      xcookie_data = Some \<lparr>xi_event = window\<rparr>\<rparr>"

text \<open>
  A second system of the same process, bootstrapped on a connection of its own, without
  handlers.
\<close>

definition other_system :: PointerSystem where
  "other_system =
     \<lparr>mDisplay = Some 9, mOpcode = 131, mMessageCallback = 0, mPointerHandlers = Map.empty\<rparr>"

text \<open>The result of \<^verbatim>\<open>getWindowsOfProcess(7)\<close> on the example tree.\<close>

definition got_windows :: "Result \<times> (ptr \<times> 32 word) option \<times> world" where
  "got_windows =
     getWindowsOfProcess 7 True example_system (example_world\<lparr>root_window := example_tree\<rparr>)"

section \<open>Windows of a process\<close>

lemma fold_append_each:
  assumes "\<And>c ws. c \<in> set cs \<Longrightarrow> f c ws = ws @ g c"
  shows "fold f cs ws = ws @ concat (map g cs)"
  using assms by (induction cs arbitrary: ws) simp_all

lemma getWindowsOfProcess_rec_preorder:
  "getWindowsOfProcess_rec t pid ws = ws @ matching_windows pid t"
proof (induction t pid ws rule: getWindowsOfProcess_rec.induct)
  case (1 window propPID tree pid windows)
  show ?case
  proof (cases tree)
    case None
    then show ?thesis
      by (cases propPID) (simp_all add: matching_windows_def pid_matches_def)
  next
    case (Some cs)
    have ih: "\<And>c ws. c \<in> set cs \<Longrightarrow>
        getWindowsOfProcess_rec c pid ws = ws @ matching_windows pid c"
      using "1.IH" Some by simp
    have "fold (\<lambda>child ws. getWindowsOfProcess_rec child pid ws) cs ws
          = ws @ concat (map (matching_windows pid) cs)" for ws
      by (rule fold_append_each) (rule ih)
    moreover have "concat (map (matching_windows pid) cs)
          = map wid (filter (pid_matches pid) (concat (map tree_windows cs)))"
      unfolding matching_windows_def by (simp add: map_concat filter_concat comp_def)
    ultimately show ?thesis using Some
      by (cases propPID) (simp_all add: matching_windows_def pid_matches_def)
  qed
qed

lemma getWindowsOfProcess_result:
  "getWindowsOfProcess pid True s w =
     (OK, Some (next_ptr w, word_of_nat (length (matching_windows pid (root_window w)))),
      w\<lparr>arrays := (arrays w)(next_ptr w \<mapsto> matching_windows pid (root_window w)),
        next_ptr := Suc (next_ptr w)\<rparr>)"
  by (simp add: getWindowsOfProcess_def new_array_def getWindowsOfProcess_rec_preorder Let_def)

text \<open>
  Claim C2. For every window tree and every pid, \<^verbatim>\<open>getWindowsOfProcess(pid)\<close> stores in
  the returned array exactly the windows of the tree under the default root window whose
  process-id property is present and equals the pid, nested descendants included, in
  pre-order; when the windows of the tree are pairwise different, as the identifiers of
  an X server are, no window occurs twice. A window whose property is absent or cannot
  be read is not in the result, and a window whose tree query fails adds nothing from
  below itself while the walk goes on with its siblings (\<open>tree_windows\<close> lists it without
  children).
\<close>

theorem getWindowsOfProcess_preorder_matches:
  assumes "distinct (map wid (tree_windows (root_window w)))"
  shows "\<exists>a w'. getWindowsOfProcess pid True s w =
            (OK, Some (a, word_of_nat (length (matching_windows pid (root_window w)))), w')
          \<and> arrays w' a = Some (matching_windows pid (root_window w))
          \<and> matching_windows pid (root_window w)
              = map wid (filter (\<lambda>n. pid_property n = PropertyData pid) (tree_windows (root_window w)))
          \<and> distinct (matching_windows pid (root_window w))
          \<and> set (matching_windows pid (root_window w))
              = {wid n |n. n \<in> set (tree_windows (root_window w)) \<and> pid_property n = PropertyData pid}
          \<and> (\<forall>n \<in> set (tree_windows (root_window w)).
                pid_property n \<noteq> PropertyData pid \<longrightarrow> wid n \<notin> set (matching_windows pid (root_window w)))"
proof -
  let ?t = "root_window w"
  let ?ms = "matching_windows pid ?t"
  have run: "getWindowsOfProcess pid True s w =
     (OK, Some (next_ptr w, word_of_nat (length ?ms)),
      w\<lparr>arrays := (arrays w)(next_ptr w \<mapsto> ?ms), next_ptr := Suc (next_ptr w)\<rparr>)"
    by (rule getWindowsOfProcess_result)
  have form: "?ms = map wid (filter (\<lambda>n. pid_property n = PropertyData pid) (tree_windows ?t))"
    by (simp add: matching_windows_def pid_matches_def[abs_def])
  have dist: "distinct ?ms"
    unfolding matching_windows_def using assms by (rule distinct_map_filter)
  have elems: "set ?ms = {wid n |n. n \<in> set (tree_windows ?t) \<and> pid_property n = PropertyData pid}"
    by (auto simp: matching_windows_def pid_matches_def)
  have inj: "inj_on wid (set (tree_windows ?t))"
    using assms by (simp add: distinct_map)
  have others: "\<forall>n \<in> set (tree_windows ?t). pid_property n \<noteq> PropertyData pid \<longrightarrow> wid n \<notin> set ?ms"
  proof (intro ballI impI notI)
    fix n assume n: "n \<in> set (tree_windows ?t)" "pid_property n \<noteq> PropertyData pid" "wid n \<in> set ?ms"
    from n(3) obtain m where m: "m \<in> set (tree_windows ?t)" "pid_property m = PropertyData pid" "wid m = wid n"
      unfolding elems by auto
    from inj m(3) m(1) n(1) have "m = n" by (rule inj_onD)
    with m(2) n(2) show False by simp
  qed
  show ?thesis
  proof (intro exI conjI)
    show "getWindowsOfProcess pid True s w =
       (OK, Some (next_ptr w, word_of_nat (length ?ms)),
        w\<lparr>arrays := (arrays w)(next_ptr w \<mapsto> ?ms), next_ptr := Suc (next_ptr w)\<rparr>)"
      by (rule run)
    show "arrays (w\<lparr>arrays := (arrays w)(next_ptr w \<mapsto> ?ms), next_ptr := Suc (next_ptr w)\<rparr>)
            (next_ptr w) = Some ?ms"
      by simp
  qed (rule form dist elems others)+
qed

theorem getWindowsOfProcess_preorder_matches_witness:
  "distinct (map wid (tree_windows (root_window (empty_world\<lparr>root_window := example_tree\<rparr>))))
   \<and> (\<exists>a w'. getWindowsOfProcess 7 True (PointerSystem_ctor 0) (empty_world\<lparr>root_window := example_tree\<rparr>)
                = (OK, Some (a, 3), w') \<and> arrays w' a = Some [1, 3, 5])"
proof -
  have d: "distinct (map wid (tree_windows (root_window (empty_world\<lparr>root_window := example_tree\<rparr>))))"
    by (simp add: example_tree_def)
  have m: "matching_windows 7 (root_window (empty_world\<lparr>root_window := example_tree\<rparr>)) = [1, 3, 5]"
    by (simp add: matching_windows_def example_tree_def pid_matches_def)
  from getWindowsOfProcess_preorder_matches [OF d, of 7 "PointerSystem_ctor 0"]
  obtain a w' where
    "getWindowsOfProcess 7 True (PointerSystem_ctor 0) (empty_world\<lparr>root_window := example_tree\<rparr>)
       = (OK, Some (a, word_of_nat (length (matching_windows 7
            (root_window (empty_world\<lparr>root_window := example_tree\<rparr>))))), w')"
    "arrays w' a = Some (matching_windows 7 (root_window (empty_world\<lparr>root_window := example_tree\<rparr>)))"
    by blast
  with m have "getWindowsOfProcess 7 True (PointerSystem_ctor 0) (empty_world\<lparr>root_window := example_tree\<rparr>)
       = (OK, Some (a, 3), w') \<and> arrays w' a = Some [1, 3, 5]"
    by simp
  with d show ?thesis by blast
qed

section \<open>The event loop\<close>

lemma is_extension_event_unclaimed [simp]:
  "is_extension_event s (unclaimed e) = is_extension_event s e"
  by (simp add: is_extension_event_def unclaimed_def)

lemma processEventQueue_body_discards:
  "\<not> is_extension_event s e \<Longrightarrow> processEventQueue_body s e w = Some w"
  by (auto simp: processEventQueue_body_def is_extension_event_def)

lemma processEventQueue_body_forwards:
  assumes "processEventQueue_body s e w = Some w'"
  shows "queue w' = queue w \<and> dequeued w' = dequeued w
         \<and> (\<exists>ds. processed w' = processed w @ ds
                \<and> (\<forall>(h, e') \<in> set ds. e' = e \<and> is_extension_event s e))"
  using assms
  by (auto simp: processEventQueue_body_def is_extension_event_def sendMessage_def
      processEvent_def Let_def split: if_splits option.splits)


lemma processEventQueue_loop_forwards:
  "processEventQueue_loop arrivals s w = Returns w' \<Longrightarrow>
     \<exists>ds. processed w' = processed w @ ds \<and> (\<forall>(h, e) \<in> set ds. is_extension_event s e)"
proof (induction arrivals s w rule: processEventQueue_loop.induct)
  case (1 arrivals s w)
  show ?case
  proof (cases "queue w")
    case Nil
    with "1.prems" have "w' = w"
      by (simp add: processEventQueue_loop.simps[of arrivals s w] XEventsQueued_def)
    then show ?thesis by simp
  next
    case (Cons e q)
    define w1 where "w1 = w\<lparr>queue := q, dequeued := dequeued w @ [unclaimed e]\<rparr>"
    have nz: "XEventsQueued w \<noteq> 0" using Cons by (simp add: XEventsQueued_def)
    have nx: "XNextEvent w = Some (unclaimed e, w1)" using Cons by (simp add: XNextEvent_def w1_def)
    show ?thesis
    proof (cases "processEventQueue_body s (unclaimed e) w1")
      case None
      with nz nx "1.prems" show ?thesis by (simp add: processEventQueue_loop.simps[of arrivals s w])
    next
      case (Some w2)
      let ?w3 = "enqueue (case arrivals of [] \<Rightarrow> [] | es # _ \<Rightarrow> es) w2"
      from nz nx Some "1.prems" have rest: "processEventQueue_loop (tl arrivals) s ?w3 = Returns w'"
        by (simp add: processEventQueue_loop.simps[of arrivals s w])
      from "1.IH"[OF nz nx refl Some rest] obtain ds2 where
        ds2: "processed w' = processed ?w3 @ ds2" "\<forall>(h, e) \<in> set ds2. is_extension_event s e"
        by blast
      from processEventQueue_body_forwards[OF Some] obtain ds1 where
        ds1: "processed w2 = processed w1 @ ds1" "\<forall>(h, e') \<in> set ds1. is_extension_event s e"
        by fastforce
      have "processed w' = processed w @ (ds1 @ ds2)"
        using ds1(1) ds2(1) by (simp add: enqueue_def w1_def)
      moreover have "\<forall>(h, e') \<in> set (ds1 @ ds2). is_extension_event s e'"
        using ds1(2) ds2(2) processEventQueue_body_forwards[OF Some] ds1(1) by fastforce
      ultimately show ?thesis by blast
    qed
  qed
qed


lemmas run_simps = processEventQueue_def processEventQueue_loop.simps XEventsQueued_def XNextEvent_def
   unclaimed_def enqueue_def processEventQueue_body_def sendMessage_def processEvent_def Let_def
   example_world_def example_system_def xi2_event_def core_event_def GenericEvent_def




text \<open>
  Claim C5. An event whose category is not the generic one, or whose extension
  identifier differs from the negotiated opcode, is discarded by the loop body without
  any effect, and is forwarded to no handler; whenever the body forwards an event, and
  in every call of \<^verbatim>\<open>processEventQueue\<close> that returns, every event a handler has
  received is of the generic category and carries the negotiated opcode. The statement
  about the body holds for every event, also one whose cookie data can be read.
\<close>

theorem processEventQueue_forwards_extension_events_only:
  "((ev_type e \<noteq> GenericEvent \<or> xcookie_extension e \<noteq> mOpcode s) \<longrightarrow>
      processEventQueue_body s e w = Some w)
   \<and> (processEventQueue_body s e w = Some w' \<longrightarrow>
        (\<exists>ds. processed w' = processed w @ ds
           \<and> (\<forall>(h, e') \<in> set ds. e' = e \<and> ev_type e' = GenericEvent
                 \<and> xcookie_extension e' = mOpcode s)))
   \<and> (processEventQueue arrivals s w0 = Returns (r, w1) \<longrightarrow>
        (\<exists>ds. processed w1 = processed w0 @ ds
           \<and> (\<forall>(h, e') \<in> set ds. ev_type e' = GenericEvent \<and> xcookie_extension e' = mOpcode s)
           \<and> (\<forall>h e'. ev_type e' \<noteq> GenericEvent \<or> xcookie_extension e' \<noteq> mOpcode s
                 \<longrightarrow> (h, e') \<notin> set ds)))"
proof (intro conjI impI)
  assume "ev_type e \<noteq> GenericEvent \<or> xcookie_extension e \<noteq> mOpcode s"
  then show "processEventQueue_body s e w = Some w"
    by (intro processEventQueue_body_discards) (auto simp: is_extension_event_def)
next
  assume "processEventQueue_body s e w = Some w'"
  from processEventQueue_body_forwards[OF this]
  show "\<exists>ds. processed w' = processed w @ ds
           \<and> (\<forall>(h, e') \<in> set ds. e' = e \<and> ev_type e' = GenericEvent
                 \<and> xcookie_extension e' = mOpcode s)"
    by (fastforce simp: is_extension_event_def)
next
  assume "processEventQueue arrivals s w0 = Returns (r, w1)"
  then have "processEventQueue_loop arrivals s w0 = Returns w1"
    by (auto simp: processEventQueue_def split: run.splits)
  from processEventQueue_loop_forwards[OF this] obtain ds where
    ds: "processed w1 = processed w0 @ ds" "\<forall>(h, e) \<in> set ds. is_extension_event s e"
    by blast
  have only: "ev_type e' = GenericEvent \<and> xcookie_extension e' = mOpcode s"
    if "(h, e') \<in> set ds" for h e'
    using ds(2) that by (auto simp: is_extension_event_def)
  show "\<exists>ds. processed w1 = processed w0 @ ds
           \<and> (\<forall>(h, e') \<in> set ds. ev_type e' = GenericEvent \<and> xcookie_extension e' = mOpcode s)
           \<and> (\<forall>h e'. ev_type e' \<noteq> GenericEvent \<or> xcookie_extension e' \<noteq> mOpcode s
                 \<longrightarrow> (h, e') \<notin> set ds)"
  proof (intro exI conjI)
    show "processed w1 = processed w0 @ ds" by (rule ds(1))
    show "\<forall>(h, e') \<in> set ds. ev_type e' = GenericEvent \<and> xcookie_extension e' = mOpcode s"
      using only by blast
    show "\<forall>h e'. ev_type e' \<noteq> GenericEvent \<or> xcookie_extension e' \<noteq> mOpcode s
                 \<longrightarrow> (h, e') \<notin> set ds"
      using only by blast
  qed
qed

theorem processEventQueue_forwards_extension_events_only_witness:
  "processEventQueue_body example_system (core_event 2) example_world = Some example_world
   \<and> processEventQueue_body example_system (xi2_event 99 10) example_world = Some example_world
   \<and> processEventQueue_body example_system (xi2_event 131 10) example_world
       = Some (example_world\<lparr>processed := [(1, xi2_event 131 10)]\<rparr>)
   \<and> ev_type (xi2_event 131 10) = GenericEvent
   \<and> xcookie_extension (xi2_event 131 10) = mOpcode example_system
   \<and> (\<exists>w1. processEventQueue [] example_system
              (example_world\<lparr>queue := [core_event 2, xi2_event 99 10]\<rparr>) = Returns (OK, w1)
          \<and> processed w1 = [])"
proof -
  note fwd = processEventQueue_forwards_extension_events_only
  have a1: "ev_type (core_event 2) \<noteq> GenericEvent
            \<or> xcookie_extension (core_event 2) \<noteq> mOpcode example_system"
    and a2: "ev_type (xi2_event 99 10) \<noteq> GenericEvent
            \<or> xcookie_extension (xi2_event 99 10) \<noteq> mOpcode example_system"
    by (simp_all add: core_event_def xi2_event_def example_system_def GenericEvent_def)
  from fwd[where s = example_system and e = "core_event 2" and w = example_world] a1
  have A: "processEventQueue_body example_system (core_event 2) example_world = Some example_world"
    by blast
  from fwd[where s = example_system and e = "xi2_event 99 10" and w = example_world] a2
  have B: "processEventQueue_body example_system (xi2_event 99 10) example_world = Some example_world"
    by blast
  have run: "processEventQueue_body example_system (xi2_event 131 10) example_world
       = Some (example_world\<lparr>processed := [(1, xi2_event 131 10)]\<rparr>)"
    by (simp add: processEventQueue_body_def processEvent_def example_system_def example_world_def
        xi2_event_def GenericEvent_def)
  from fwd[where s = example_system and e = "xi2_event 131 10" and w = example_world
         and w' = "example_world\<lparr>processed := [(1, xi2_event 131 10)]\<rparr>"] run
  obtain ds where ds:
    "processed (example_world\<lparr>processed := [(1, xi2_event 131 10)]\<rparr>) = processed example_world @ ds"
    "\<forall>(h, e') \<in> set ds. e' = xi2_event 131 10 \<and> ev_type e' = GenericEvent
        \<and> xcookie_extension e' = mOpcode example_system"
    by blast
  from ds(1) have "ds = [(1, xi2_event 131 10)]" by (simp add: example_world_def)
  with ds(2) have C: "ev_type (xi2_event 131 10) = GenericEvent
      \<and> xcookie_extension (xi2_event 131 10) = mOpcode example_system"
    by simp
  let ?w = "example_world\<lparr>queue := [core_event 2, xi2_event 99 10]\<rparr>"
  have loop: "processEventQueue [] example_system ?w
      = Returns (OK, example_world\<lparr>dequeued := [core_event 2, (xi2_event 99 10)\<lparr>xcookie_data := None\<rparr>]\<rparr>)"
    by (simp add: run_simps)
  from fwd[where s = example_system and ?w0.0 = ?w and arrivals = "[]" and r = OK
         and ?w1.0 = "example_world\<lparr>dequeued := [core_event 2, (xi2_event 99 10)\<lparr>xcookie_data := None\<rparr>]\<rparr>"] loop
  obtain ds' where
    "processed (example_world\<lparr>dequeued := [core_event 2, (xi2_event 99 10)\<lparr>xcookie_data := None\<rparr>]\<rparr>)
       = processed ?w @ ds'"
    by blast
  with loop have D: "\<exists>w1. processEventQueue [] example_system ?w = Returns (OK, w1) \<and> processed w1 = []"
    by (simp add: example_world_def)
  from A B run C D show ?thesis by blast
qed

text \<open>
  Claim C6, at a failing input. The system has a handler for window 10 only, and the
  queue holds one device event of the negotiated opcode for window 20. \<^verbatim>\<open>XNextEvent\<close>
  hands the event out with \<^verbatim>\<open>xcookie.data = NULL\<close>, the code does not call
  \<^verbatim>\<open>XGetEventData\<close>, and the read of \<^verbatim>\<open>xiEvent->event\<close> goes through the null
  pointer: no warning is sent and the call does not return \<^verbatim>\<open>OK\<close>. The same happens
  when core events surround the device event.
\<close>

theorem processEventQueue_routing_miss_null_dereference:
  "getHandler 20 example_system = None
   \<and> unclaimed (xi2_event 131 20) = (xi2_event 131 20)\<lparr>xcookie_data := None\<rparr>
   \<and> processEventQueue [] example_system (example_world\<lparr>queue := [xi2_event 131 20]\<rparr>)
       = NullDereference
   \<and> processEventQueue [] example_system
        (example_world\<lparr>queue := [core_event 2, xi2_event 131 20, core_event 3]\<rparr>)
       = NullDereference"
  by (simp add: run_simps getHandler_def)

section \<open>Bootstrap\<close>

lemma initialize_success:
  assumes "XOpenDisplay_ret x = Some d" and "fst (XQueryExtension_ret x)"
      and "fst (XIQueryVersion_ret x) \<noteq> BadRequest"
  shows "initialize x s w =
     (OK, s\<lparr>mDisplay := Some d, mOpcode := snd (XQueryExtension_ret x)\<rparr>,
      w\<lparr>connections := insert d (connections w)\<rparr>)"
  using assms
  by (cases "XQueryExtension_ret x"; cases "XIQueryVersion_ret x")
     (simp add: initialize_def XOpenDisplay_def Let_def)

lemma initialize_failure:
  assumes "XOpenDisplay_ret x = Some d"
      and "\<not> fst (XQueryExtension_ret x) \<or> fst (XIQueryVersion_ret x) = BadRequest"
  shows "fst (initialize x s w) = ERROR_API"
    and "mDisplay (fst (snd (initialize x s w))) = None"
    and "connections (snd (snd (initialize x s w))) = connections w - {d}"
  using assms
  by (cases "XQueryExtension_ret x"; cases "XIQueryVersion_ret x";
      auto simp add: initialize_def XOpenDisplay_def XCloseDisplay_def sendMessage_def Let_def)+

lemma initialize_result_cases:
  "fst (initialize x s w) = OK \<or> fst (initialize x s w) = ERROR_API"
  by (cases "XQueryExtension_ret x"; cases "XIQueryVersion_ret x")
     (auto simp add: initialize_def XOpenDisplay_def Let_def split: option.splits)

lemma initialize_error_closed:
  "fst (initialize x s w) \<noteq> OK \<Longrightarrow> mDisplay (fst (snd (initialize x s w))) = None"
  by (cases "XQueryExtension_ret x"; cases "XIQueryVersion_ret x")
     (auto simp add: initialize_def XOpenDisplay_def Let_def split: option.splits if_splits)

lemma initialize_keeps_registry:
  "mPointerHandlers (fst (snd (initialize x s w))) = mPointerHandlers s"
  by (cases "XQueryExtension_ret x"; cases "XIQueryVersion_ret x")
     (auto simp add: initialize_def XOpenDisplay_def Let_def split: option.splits)

lemma PointerSystem_Create_unfold:
  "PointerSystem_Create x cb w =
     (fst (initialize x (PointerSystem_ctor cb) (snd (new_PointerSystem (PointerSystem_ctor cb) w))),
      Some (next_ptr w),
      (snd (snd (initialize x (PointerSystem_ctor cb) (snd (new_PointerSystem (PointerSystem_ctor cb) w)))))
        \<lparr>systems := (systems (snd (snd (initialize x (PointerSystem_ctor cb)
              (snd (new_PointerSystem (PointerSystem_ctor cb) w))))))
            (next_ptr w \<mapsto> fst (snd (initialize x (PointerSystem_ctor cb)
              (snd (new_PointerSystem (PointerSystem_ctor cb) w)))))\<rparr>)"
  by (simp add: PointerSystem_Create_def new_PointerSystem_def Let_def split_beta)

text \<open>
  Claim C3. In every run of \<^verbatim>\<open>initialize\<close> in which the display is opened and then
  the extension query fails or the version query answers \<^verbatim>\<open>BadRequest\<close>, the result is
  \<^verbatim>\<open>ERROR_API\<close>, the connection that was opened is closed again and \<^verbatim>\<open>mDisplay\<close> is
  null. A later \<^verbatim>\<open>initialize\<close> on the same object, against a server where all three steps
  succeed, returns \<^verbatim>\<open>OK\<close> with the new connection open and recorded, and sends no
  message.
\<close>

theorem initialize_rolls_back:
  assumes "XOpenDisplay_ret x = Some d"
      and "\<not> fst (XQueryExtension_ret x) \<or> fst (XIQueryVersion_ret x) = BadRequest"
  shows "\<exists>s' w'. initialize x s w = (ERROR_API, s', w')
           \<and> mDisplay s' = None
           \<and> d \<notin> connections w'
           \<and> connections w' = connections w - {d}
           \<and> (\<forall>x2 d2. XOpenDisplay_ret x2 = Some d2 \<and> fst (XQueryExtension_ret x2)
                   \<and> fst (XIQueryVersion_ret x2) \<noteq> BadRequest
                \<longrightarrow> (\<exists>s'' w''. initialize x2 s' w' = (OK, s'', w'')
                       \<and> mDisplay s'' = Some d2
                       \<and> mOpcode s'' = snd (XQueryExtension_ret x2)
                       \<and> connections w'' = insert d2 (connections w')
                       \<and> sent w'' = sent w'))"
proof -
  define s' where "s' = fst (snd (initialize x s w))"
  define w' where "w' = snd (snd (initialize x s w))"
  have run: "initialize x s w = (ERROR_API, s', w')"
    using initialize_failure(1)[OF assms, of s w] by (simp add: s'_def w'_def prod_eq_iff)
  have closed: "mDisplay s' = None" "connections w' = connections w - {d}"
    using initialize_failure(2,3)[OF assms, of s w] by (simp_all add: s'_def w'_def)
  have again: "\<exists>s'' w''. initialize x2 s' w' = (OK, s'', w'')
                       \<and> mDisplay s'' = Some d2
                       \<and> mOpcode s'' = snd (XQueryExtension_ret x2)
                       \<and> connections w'' = insert d2 (connections w')
                       \<and> sent w'' = sent w'"
    if "XOpenDisplay_ret x2 = Some d2 \<and> fst (XQueryExtension_ret x2)
          \<and> fst (XIQueryVersion_ret x2) \<noteq> BadRequest" for x2 d2
    using that by (simp add: initialize_success)
  from run closed again show ?thesis by blast
qed

theorem initialize_rolls_back_witness:
  "fst (initialize failing_extension_server (PointerSystem_ctor 0) empty_world) = ERROR_API
   \<and> mDisplay (fst (snd (initialize failing_extension_server (PointerSystem_ctor 0) empty_world))) = None
   \<and> connections (snd (snd (initialize old_version_server (PointerSystem_ctor 0) empty_world))) = {}
   \<and> fst (initialize old_version_server (PointerSystem_ctor 0) empty_world) = ERROR_API
   \<and> fst (initialize good_server
             (fst (snd (initialize old_version_server (PointerSystem_ctor 0) empty_world)))
             (snd (snd (initialize old_version_server (PointerSystem_ctor 0) empty_world)))) = OK"
proof -
  have a1: "XOpenDisplay_ret failing_extension_server = Some 7"
    and a2: "\<not> fst (XQueryExtension_ret failing_extension_server)
             \<or> fst (XIQueryVersion_ret failing_extension_server) = BadRequest"
    by (simp_all add: failing_extension_server_def)
  have b1: "XOpenDisplay_ret old_version_server = Some 7"
    and b2: "\<not> fst (XQueryExtension_ret old_version_server)
             \<or> fst (XIQueryVersion_ret old_version_server) = BadRequest"
    by (simp_all add: old_version_server_def)
  have g: "XOpenDisplay_ret good_server = Some 8 \<and> fst (XQueryExtension_ret good_server)
             \<and> fst (XIQueryVersion_ret good_server) \<noteq> BadRequest"
    by (simp add: good_server_def BadRequest_def)
  from initialize_rolls_back[OF a1 a2, of "PointerSystem_ctor 0" empty_world]
  have A: "fst (initialize failing_extension_server (PointerSystem_ctor 0) empty_world) = ERROR_API
   \<and> mDisplay (fst (snd (initialize failing_extension_server (PointerSystem_ctor 0) empty_world))) = None"
    by auto
  from initialize_rolls_back[OF b1 b2, of "PointerSystem_ctor 0" empty_world]
  obtain s' w' where r:
      "initialize old_version_server (PointerSystem_ctor 0) empty_world = (ERROR_API, s', w')"
      "connections w' = connections empty_world - {7}"
    and nxt: "\<forall>x2 d2. XOpenDisplay_ret x2 = Some d2 \<and> fst (XQueryExtension_ret x2)
                   \<and> fst (XIQueryVersion_ret x2) \<noteq> BadRequest
                \<longrightarrow> (\<exists>s'' w''. initialize x2 s' w' = (OK, s'', w'')
                       \<and> mDisplay s'' = Some d2
                       \<and> mOpcode s'' = snd (XQueryExtension_ret x2)
                       \<and> connections w'' = insert d2 (connections w')
                       \<and> sent w'' = sent w')"
    by blast
  from nxt g obtain s'' w'' where "initialize good_server s' w' = (OK, s'', w'')"
    by blast
  with r
  have B: "connections (snd (snd (initialize old_version_server (PointerSystem_ctor 0) empty_world))) = {}
   \<and> fst (initialize old_version_server (PointerSystem_ctor 0) empty_world) = ERROR_API
   \<and> fst (initialize good_server
             (fst (snd (initialize old_version_server (PointerSystem_ctor 0) empty_world)))
             (snd (snd (initialize old_version_server (PointerSystem_ctor 0) empty_world)))) = OK"
    by (simp add: empty_world_def)
  from A B show ?thesis by simp
qed

text \<open>
  Claim C10. \<^verbatim>\<open>PointerSystem_Create\<close> allocates the system and stores its address in
  the handle slot before \<^verbatim>\<open>initialize\<close> runs; the slot is written whatever
  \<^verbatim>\<open>initialize\<close> returns. The result is exactly the result of \<^verbatim>\<open>initialize\<close> on the
  new object, \<^verbatim>\<open>OK\<close> or \<^verbatim>\<open>ERROR_API\<close>. Also after \<^verbatim>\<open>ERROR_API\<close> the object is live
  (with no connection), and \<^verbatim>\<open>PointerSystem_Destroy\<close> on the handle releases it.
\<close>

theorem PointerSystem_Create_always_returns_handle:
  "\<exists>p w1 s' w'.
       new_PointerSystem (PointerSystem_ctor cb) w = (p, w1)
     \<and> systems w1 p = Some (PointerSystem_ctor cb)
     \<and> PointerSystem_Create x cb w = (fst (initialize x (PointerSystem_ctor cb) w1), Some p, w')
     \<and> s' = fst (snd (initialize x (PointerSystem_ctor cb) w1))
     \<and> systems w' p = Some s'
     \<and> (fst (initialize x (PointerSystem_ctor cb) w1) = OK
          \<or> fst (initialize x (PointerSystem_ctor cb) w1) = ERROR_API)
     \<and> (fst (initialize x (PointerSystem_ctor cb) w1) = ERROR_API \<longrightarrow> mDisplay s' = None)
     \<and> (\<exists>w''. PointerSystem_Destroy (Some p) w' = Some (OK, w'') \<and> systems w'' p = None)"
proof -
  let ?p = "next_ptr w"
  let ?w1 = "snd (new_PointerSystem (PointerSystem_ctor cb) w)"
  let ?r = "fst (initialize x (PointerSystem_ctor cb) ?w1)"
  let ?s' = "fst (snd (initialize x (PointerSystem_ctor cb) ?w1))"
  let ?w2 = "snd (snd (initialize x (PointerSystem_ctor cb) ?w1))"
  let ?w' = "?w2\<lparr>systems := (systems ?w2)(?p \<mapsto> ?s')\<rparr>"
  have alloc: "new_PointerSystem (PointerSystem_ctor cb) w = (?p, ?w1)"
    by (simp add: new_PointerSystem_def)
  have live1: "systems ?w1 ?p = Some (PointerSystem_ctor cb)"
    by (simp add: new_PointerSystem_def)
  have run: "PointerSystem_Create x cb w = (?r, Some ?p, ?w')"
    by (rule PointerSystem_Create_unfold)
  have live: "systems ?w' ?p = Some ?s'" by simp
  have closed: "?r = ERROR_API \<longrightarrow> mDisplay ?s' = None"
    using initialize_error_closed[of x "PointerSystem_ctor cb" ?w1] by simp
  have empty: "mPointerHandlers ?s' = Map.empty"
    by (simp add: initialize_keeps_registry PointerSystem_ctor_def)
  have destroy: "\<exists>w''. PointerSystem_Destroy (Some ?p) ?w' = Some (OK, w'') \<and> systems w'' ?p = None"
    by (simp add: PointerSystem_Destroy_def PointerSystem_dtor_def XCloseDisplay_def Let_def empty
        split: option.splits)
  from alloc live1 run live initialize_result_cases[of x "PointerSystem_ctor cb" ?w1] closed destroy
  show ?thesis by blast
qed

theorem PointerSystem_Create_always_returns_handle_witness:
  "fst (PointerSystem_Create no_display_server 0 empty_world) = ERROR_API
   \<and> fst (snd (PointerSystem_Create no_display_server 0 empty_world)) = Some 1
   \<and> map_option mDisplay (systems (snd (snd (PointerSystem_Create no_display_server 0 empty_world))) 1) = Some None
   \<and> map_option fst (PointerSystem_Destroy (Some 1) (snd (snd (PointerSystem_Create no_display_server 0 empty_world))))
       = Some OK"
proof -
  have i: "fst (initialize no_display_server (PointerSystem_ctor 0)
               (snd (new_PointerSystem (PointerSystem_ctor 0) empty_world))) = ERROR_API"
    by (simp add: initialize_def XOpenDisplay_def no_display_server_def Let_def)
  have n: "new_PointerSystem (PointerSystem_ctor 0) empty_world
      = (1, snd (new_PointerSystem (PointerSystem_ctor 0) empty_world))"
    by (simp add: new_PointerSystem_def empty_world_def)
  from PointerSystem_Create_always_returns_handle[where cb = 0 and w = empty_world and x = no_display_server]
  obtain p w1 s' w' w'' where r:
    "new_PointerSystem (PointerSystem_ctor 0) empty_world = (p, w1)"
    "PointerSystem_Create no_display_server 0 empty_world
       = (fst (initialize no_display_server (PointerSystem_ctor 0) w1), Some p, w')"
    "systems w' p = Some s'"
    "fst (initialize no_display_server (PointerSystem_ctor 0) w1) = ERROR_API \<longrightarrow> mDisplay s' = None"
    "PointerSystem_Destroy (Some p) w' = Some (OK, w'')"
    by blast
  from r(1) n have p: "p = 1" "w1 = snd (new_PointerSystem (PointerSystem_ctor 0) empty_world)"
    by simp_all
  from r(4) i p have "mDisplay s' = None" by simp
  with r(2,3,5) i p show ?thesis by simp
qed

section \<open>The handler registry\<close>

lemma createHandler_fresh:
  assumes "mPointerHandlers s window = None"
  shows "createHandler hinit window cb s w =
     (hinit (s\<lparr>mPointerHandlers := (mPointerHandlers s)(window \<mapsto> next_ptr w)\<rparr>)
            (w\<lparr>handlers := (handlers w)(next_ptr w \<mapsto>
                  \<lparr>hDisplay = mDisplay s, hWindow = window,
                   hMessageCallback = mMessageCallback s, hPointerCallback = cb\<rparr>),
               next_ptr := Suc (next_ptr w)\<rparr>)
            (next_ptr w),
      Some (next_ptr w),
      s\<lparr>mPointerHandlers := (mPointerHandlers s)(window \<mapsto> next_ptr w)\<rparr>,
      w\<lparr>handlers := (handlers w)(next_ptr w \<mapsto>
                  \<lparr>hDisplay = mDisplay s, hWindow = window,
                   hMessageCallback = mMessageCallback s, hPointerCallback = cb\<rparr>),
        next_ptr := Suc (next_ptr w)\<rparr>)"
  using assms by (simp add: createHandler_def new_PointerHandler_def map_insert_def Let_def)

lemma createHandler_registered:
  assumes "mPointerHandlers s window = Some h"
  shows "createHandler hinit window cb s w =
     (ERROR_DUPLICATE_ITEM, None, s,
      w\<lparr>sent := sent w @ [(mMessageCallback s, ERROR,
           ''A handler has already been created for window '' @ to_string_nat (unat window))]\<rparr>)"
  using assms by (simp add: createHandler_def sendMessage_def)

text \<open>
  The example system and world are what the code produces: a bootstrap against
  \<open>good_server\<close>, then \<^verbatim>\<open>createHandler\<close> for window 10.
\<close>

lemma example_reachable:
  "initialize good_server (PointerSystem_ctor 0) empty_world
     = (OK, example_system\<lparr>mPointerHandlers := Map.empty\<rparr>,
        example_world\<lparr>handlers := Map.empty, next_ptr := 1\<rparr>)
   \<and> createHandler init_ok 10 4 (example_system\<lparr>mPointerHandlers := Map.empty\<rparr>)
        (example_world\<lparr>handlers := Map.empty, next_ptr := 1\<rparr>)
     = (OK, Some 1, example_system, example_world)"
  by (simp add: initialize_def XOpenDisplay_def good_server_def PointerSystem_ctor_def
      empty_world_def example_system_def example_world_def BadRequest_def Let_def
      createHandler_def new_PointerHandler_def map_insert_def init_ok_def)

lemma destroyHandler_live:
  assumes "handlers w handler = Some obj"
  shows "destroyHandler handler s w =
     Some (OK, s\<lparr>mPointerHandlers := (mPointerHandlers s)(hWindow obj := None)\<rparr>,
           w\<lparr>handlers := (handlers w)(handler := None)\<rparr>)"
proof (cases "mPointerHandlers s (hWindow obj)")
  case None
  then have "(mPointerHandlers s)(hWindow obj := None) = mPointerHandlers s"
    by (simp add: fun_upd_idem)
  with None assms show ?thesis
    by (simp add: destroyHandler_def getWindow_def delete_PointerHandler_def)
next
  case (Some h)
  with assms show ?thesis
    by (simp add: destroyHandler_def getWindow_def delete_PointerHandler_def)
qed

lemma destroyHandler_released:
  "handlers w handler = None \<Longrightarrow> destroyHandler handler s w = None"
  by (simp add: destroyHandler_def)

text \<open>
  Claim C4. When the window already has an entry, \<^verbatim>\<open>createHandler\<close> returns
  \<^verbatim>\<open>ERROR_DUPLICATE_ITEM\<close>, writes no handle, leaves the object (and with it the
  registry) as it was and constructs no handler. Consequently, for a window without an
  entry, a first call - which returns \<^verbatim>\<open>OK\<close> when the handler's initialization does -
  followed by a second call for the same window returns \<^verbatim>\<open>ERROR_DUPLICATE_ITEM\<close> the
  second time; the registry then holds the one entry of the first call for the window, and
  one handler has been constructed.
\<close>

theorem createHandler_rejects_duplicate:
  "(mPointerHandlers s window \<noteq> None \<longrightarrow>
      (\<exists>w'. createHandler hinit window cb s w = (ERROR_DUPLICATE_ITEM, None, s, w')
           \<and> handlers w' = handlers w \<and> next_ptr w' = next_ptr w))
   \<and> (mPointerHandlers s window = None \<longrightarrow>
      (\<exists>r1 h s1 w1 w2.
           createHandler hinit window cb s w = (r1, Some h, s1, w1)
         \<and> (hinit s1 w1 h = OK \<longrightarrow> r1 = OK)
         \<and> createHandler hinit2 window cb2 s1 w1 = (ERROR_DUPLICATE_ITEM, None, s1, w2)
         \<and> mPointerHandlers s1 = (mPointerHandlers s)(window \<mapsto> h)
         \<and> dom (mPointerHandlers s1) = insert window (dom (mPointerHandlers s))
         \<and> handlers w2 = (handlers w)(h \<mapsto>
               \<lparr>hDisplay = mDisplay s, hWindow = window,
                hMessageCallback = mMessageCallback s, hPointerCallback = cb\<rparr>)))"
proof (intro conjI impI)
  assume "mPointerHandlers s window \<noteq> None"
  then obtain h where "mPointerHandlers s window = Some h" by blast
  from createHandler_registered[OF this, of hinit cb w]
  show "\<exists>w'. createHandler hinit window cb s w = (ERROR_DUPLICATE_ITEM, None, s, w')
           \<and> handlers w' = handlers w \<and> next_ptr w' = next_ptr w"
    by simp
next
  assume fresh: "mPointerHandlers s window = None"
  let ?h = "next_ptr w"
  let ?obj = "\<lparr>hDisplay = mDisplay s, hWindow = window,
                hMessageCallback = mMessageCallback s, hPointerCallback = cb\<rparr>"
  let ?s1 = "s\<lparr>mPointerHandlers := (mPointerHandlers s)(window \<mapsto> ?h)\<rparr>"
  let ?w1 = "w\<lparr>handlers := (handlers w)(?h \<mapsto> ?obj), next_ptr := Suc ?h\<rparr>"
  have first: "createHandler hinit window cb s w = (hinit ?s1 ?w1 ?h, Some ?h, ?s1, ?w1)"
    by (rule createHandler_fresh[OF fresh])
  have reg: "mPointerHandlers ?s1 window = Some ?h" by simp
  from createHandler_registered[OF reg, of hinit2 cb2 ?w1]
  obtain w2 where second: "createHandler hinit2 window cb2 ?s1 ?w1 = (ERROR_DUPLICATE_ITEM, None, ?s1, w2)"
    and heap: "handlers w2 = handlers ?w1"
    by simp
  show "\<exists>r1 h s1 w1 w2.
           createHandler hinit window cb s w = (r1, Some h, s1, w1)
         \<and> (hinit s1 w1 h = OK \<longrightarrow> r1 = OK)
         \<and> createHandler hinit2 window cb2 s1 w1 = (ERROR_DUPLICATE_ITEM, None, s1, w2)
         \<and> mPointerHandlers s1 = (mPointerHandlers s)(window \<mapsto> h)
         \<and> dom (mPointerHandlers s1) = insert window (dom (mPointerHandlers s))
         \<and> handlers w2 = (handlers w)(h \<mapsto> ?obj)"
  proof (intro exI conjI)
    show "createHandler hinit window cb s w = (hinit ?s1 ?w1 ?h, Some ?h, ?s1, ?w1)" by (rule first)
    show "createHandler hinit2 window cb2 ?s1 ?w1 = (ERROR_DUPLICATE_ITEM, None, ?s1, w2)" by (rule second)
    show "handlers w2 = (handlers w)(?h \<mapsto> ?obj)" using heap by simp
  qed simp_all
qed

theorem createHandler_rejects_duplicate_witness:
  "mPointerHandlers example_system 10 \<noteq> None
   \<and> fst (createHandler init_ok 10 5 example_system example_world) = ERROR_DUPLICATE_ITEM
   \<and> mPointerHandlers (PointerSystem_ctor 0) 10 = None
   \<and> fst (createHandler init_ok 10 5 (PointerSystem_ctor 0) empty_world) = OK
   \<and> fst (createHandler init_ok 10 6
            (fst (snd (snd (createHandler init_ok 10 5 (PointerSystem_ctor 0) empty_world))))
            (snd (snd (snd (createHandler init_ok 10 5 (PointerSystem_ctor 0) empty_world)))))
       = ERROR_DUPLICATE_ITEM"
proof -
  have reg: "mPointerHandlers example_system 10 \<noteq> None" by (simp add: example_system_def)
  have fresh: "mPointerHandlers (PointerSystem_ctor 0) 10 = None" by (simp add: PointerSystem_ctor_def)
  from createHandler_rejects_duplicate
         [where s = example_system and window = 10 and hinit = init_ok and cb = 5 and w = example_world]
       reg
  have A: "fst (createHandler init_ok 10 5 example_system example_world) = ERROR_DUPLICATE_ITEM"
    by auto
  from createHandler_rejects_duplicate
         [where s = "PointerSystem_ctor 0" and window = 10 and hinit = init_ok and cb = 5
            and w = empty_world and ?hinit2.0 = init_ok and ?cb2.0 = 6] fresh
  obtain r1 h s1 w1 w2 where
    r: "createHandler init_ok 10 5 (PointerSystem_ctor 0) empty_world = (r1, Some h, s1, w1)"
       "init_ok s1 w1 h = OK \<longrightarrow> r1 = OK"
       "createHandler init_ok 10 6 s1 w1 = (ERROR_DUPLICATE_ITEM, None, s1, w2)"
    by blast
  from r have B: "fst (createHandler init_ok 10 5 (PointerSystem_ctor 0) empty_world) = OK
   \<and> fst (createHandler init_ok 10 6
            (fst (snd (snd (createHandler init_ok 10 5 (PointerSystem_ctor 0) empty_world))))
            (snd (snd (snd (createHandler init_ok 10 5 (PointerSystem_ctor 0) empty_world)))))
       = ERROR_DUPLICATE_ITEM"
    by (simp add: init_ok_def)
  from reg fresh A B show ?thesis by simp
qed

text \<open>
  Claim C8. For a window without an entry, \<^verbatim>\<open>createHandler\<close> inserts the new
  handler's entry before the handler's initialization runs (the initialization is applied
  to the object that already holds the entry), returns exactly what that initialization
  returns, and keeps the entry also when the initialization fails.
\<close>

theorem createHandler_inserts_before_initialization:
  assumes "mPointerHandlers s window = None"
  shows "\<exists>h s1 w1. createHandler hinit window cb s w = (hinit s1 w1 h, Some h, s1, w1)
           \<and> getHandler window s1 = Some h
           \<and> mPointerHandlers s1 = (mPointerHandlers s)(window \<mapsto> h)
           \<and> handlers w1 h = Some \<lparr>hDisplay = mDisplay s, hWindow = window,
                 hMessageCallback = mMessageCallback s, hPointerCallback = cb\<rparr>
           \<and> fst (snd (snd (createHandler init_fails window cb s w))) = s1
           \<and> fst (createHandler init_fails window cb s w) = ERROR_API"
proof -
  let ?h = "next_ptr w"
  let ?obj = "\<lparr>hDisplay = mDisplay s, hWindow = window,
                hMessageCallback = mMessageCallback s, hPointerCallback = cb\<rparr>"
  let ?s1 = "s\<lparr>mPointerHandlers := (mPointerHandlers s)(window \<mapsto> ?h)\<rparr>"
  let ?w1 = "w\<lparr>handlers := (handlers w)(?h \<mapsto> ?obj), next_ptr := Suc ?h\<rparr>"
  show ?thesis
  proof (intro exI conjI)
    show "createHandler hinit window cb s w = (hinit ?s1 ?w1 ?h, Some ?h, ?s1, ?w1)"
      by (rule createHandler_fresh[OF assms])
    show "getHandler window ?s1 = Some ?h" by (simp add: getHandler_def)
    show "fst (snd (snd (createHandler init_fails window cb s w))) = ?s1"
      by (simp add: createHandler_fresh[OF assms])
    show "fst (createHandler init_fails window cb s w) = ERROR_API"
      by (simp add: createHandler_fresh[OF assms] init_fails_def)
  qed simp_all
qed

theorem createHandler_inserts_before_initialization_witness:
  "mPointerHandlers example_system 20 = None
   \<and> fst (createHandler init_checks_registry 20 5 example_system example_world) = OK
   \<and> fst (createHandler init_fails 20 5 example_system example_world) = ERROR_API
   \<and> getHandler 20 (fst (snd (snd (createHandler init_fails 20 5 example_system example_world)))) = Some 2"
proof -
  have fresh: "mPointerHandlers example_system 20 = None" by (simp add: example_system_def)
  from createHandler_inserts_before_initialization
         [OF fresh, where hinit = init_checks_registry and cb = 5 and w = example_world]
  obtain h s1 w1 where r:
    "createHandler init_checks_registry 20 5 example_system example_world
       = (init_checks_registry s1 w1 h, Some h, s1, w1)"
    "getHandler 20 s1 = Some h"
    "mPointerHandlers s1 = (mPointerHandlers example_system)(20 \<mapsto> h)"
    "handlers w1 h = Some \<lparr>hDisplay = mDisplay example_system, hWindow = 20,
                 hMessageCallback = mMessageCallback example_system, hPointerCallback = 5\<rparr>"
    "fst (snd (snd (createHandler init_fails 20 5 example_system example_world))) = s1"
    "fst (createHandler init_fails 20 5 example_system example_world) = ERROR_API"
    by blast
  have "init_checks_registry s1 w1 h = OK"
    using r(3,4) by (simp add: init_checks_registry_def)
  moreover have "h = 2"
    using r(1) by (simp add: createHandler_fresh[OF fresh] example_world_def)
  ultimately show ?thesis using fresh r by simp
qed

text \<open>
  Claim C9, as stated: \<^verbatim>\<open>destroyHandler\<close> always returns \<^verbatim>\<open>OK\<close>, also when it is
  called again for a handler it has already removed. The first call releases the handler;
  the second call reads the handler's window through the pointer to the released object,
  which is undefined: it is neither a no-op nor answered with \<^verbatim>\<open>OK\<close>.
\<close>

theorem destroyHandler_repeated_counterexample:
  "handlers example_world 1 \<noteq> None
   \<and> destroyHandler 1 example_system example_world
       = Some (OK, example_system\<lparr>mPointerHandlers := Map.empty\<rparr>,
               example_world\<lparr>handlers := Map.empty\<rparr>)
   \<and> destroyHandler 1 (example_system\<lparr>mPointerHandlers := Map.empty\<rparr>)
        (example_world\<lparr>handlers := Map.empty\<rparr>) = None"
  by (simp add: destroyHandler_def getWindow_def delete_PointerHandler_def
      example_system_def example_world_def)

text \<open>
  Claim C9, amended. For every live handler (created and not yet destroyed),
  \<^verbatim>\<open>destroyHandler\<close> returns \<^verbatim>\<open>OK\<close>, removes the registry entry keyed by the
  handler's recorded window if there is one, so that \<^verbatim>\<open>getHandler\<close> for that window
  then returns null, changes nothing in the registry when no entry is keyed by that
  window, touches no other window's entry, and releases the handler and no other in
  either case. The handler is then released: the code keeps no record of that, and a
  call with a handler that is not live, such as a second call with the same pointer, is
  undefined.
\<close>

theorem destroyHandler_live_removes_entry:
  "(handlers w handler = Some obj \<longrightarrow>
      (\<exists>s' w'. destroyHandler handler s w = Some (OK, s', w')
         \<and> getHandler (hWindow obj) s' = None
         \<and> mPointerHandlers s' = (mPointerHandlers s)(hWindow obj := None)
         \<and> (mPointerHandlers s (hWindow obj) = None \<longrightarrow> s' = s)
         \<and> (\<forall>window. window \<noteq> hWindow obj \<longrightarrow> getHandler window s' = getHandler window s)
         \<and> handlers w' handler = None
         \<and> (\<forall>h. h \<noteq> handler \<longrightarrow> handlers w' h = handlers w h)
         \<and> destroyHandler handler s' w' = None))
   \<and> (handlers w handler = None \<longrightarrow> destroyHandler handler s w = None)"
proof (intro conjI impI)
  assume live: "handlers w handler = Some obj"
  let ?s' = "s\<lparr>mPointerHandlers := (mPointerHandlers s)(hWindow obj := None)\<rparr>"
  let ?w' = "w\<lparr>handlers := (handlers w)(handler := None)\<rparr>"
  show "\<exists>s' w'. destroyHandler handler s w = Some (OK, s', w')
         \<and> getHandler (hWindow obj) s' = None
         \<and> mPointerHandlers s' = (mPointerHandlers s)(hWindow obj := None)
         \<and> (mPointerHandlers s (hWindow obj) = None \<longrightarrow> s' = s)
         \<and> (\<forall>window. window \<noteq> hWindow obj \<longrightarrow> getHandler window s' = getHandler window s)
         \<and> handlers w' handler = None
         \<and> (\<forall>h. h \<noteq> handler \<longrightarrow> handlers w' h = handlers w h)
         \<and> destroyHandler handler s' w' = None"
  proof (intro exI conjI)
    show "destroyHandler handler s w = Some (OK, ?s', ?w')"
      by (rule destroyHandler_live[OF live])
    show "mPointerHandlers s (hWindow obj) = None \<longrightarrow> ?s' = s"
      by (simp add: fun_upd_idem)
    show "destroyHandler handler ?s' ?w' = None"
      by (rule destroyHandler_released) simp
  qed (simp_all add: getHandler_def)
next
  assume "handlers w handler = None"
  then show "destroyHandler handler s w = None" by (rule destroyHandler_released)
qed

theorem destroyHandler_live_removes_entry_witness:
  "handlers example_world 1 \<noteq> None
   \<and> getHandler 10 example_system = Some 1
   \<and> map_option fst (destroyHandler 1 example_system example_world) = Some OK
   \<and> map_option (getHandler 10 \<circ> fst \<circ> snd) (destroyHandler 1 example_system example_world)
       = Some None
   \<and> getHandler 10 other_system = None
   \<and> map_option fst (destroyHandler 1 other_system (example_world\<lparr>connections := {8, 9}\<rparr>))
       = Some OK
   \<and> map_option (fst \<circ> snd) (destroyHandler 1 other_system (example_world\<lparr>connections := {8, 9}\<rparr>))
       = Some other_system"
proof -
  let ?obj = "\<lparr>hDisplay = Some 8, hWindow = 10, hMessageCallback = 0, hPointerCallback = 4\<rparr>"
  have live: "handlers example_world 1 = Some ?obj" by (simp add: example_world_def)
  have reg: "getHandler 10 example_system = Some 1" by (simp add: getHandler_def example_system_def)
  from destroyHandler_live_removes_entry
         [where w = example_world and handler = 1 and obj = ?obj and s = example_system,
          THEN conjunct1, rule_format, OF live]
  obtain s' w' where r:
    "destroyHandler 1 example_system example_world = Some (OK, s', w')"
    "getHandler (hWindow ?obj) s' = None"
    by (elim exE conjE) (rule that)
  then have A: "map_option fst (destroyHandler 1 example_system example_world) = Some OK
    \<and> map_option (getHandler 10 \<circ> fst \<circ> snd) (destroyHandler 1 example_system example_world)
       = Some None"
    by simp
  let ?v = "example_world\<lparr>connections := {8, 9}\<rparr>"
  have live2: "handlers ?v 1 = Some ?obj" by (simp add: example_world_def)
  have noreg: "mPointerHandlers other_system (hWindow ?obj) = None" by (simp add: other_system_def)
  from destroyHandler_live_removes_entry
         [where w = ?v and handler = 1 and obj = ?obj and s = other_system,
          THEN conjunct1, rule_format, OF live2]
  obtain s'' w'' where q:
    "destroyHandler 1 other_system ?v = Some (OK, s'', w'')"
    "mPointerHandlers other_system (hWindow ?obj) = None \<longrightarrow> s'' = other_system"
    by (elim exE conjE) (rule that)
  from q(2) noreg have "s'' = other_system" by simp
  with q(1) have B: "map_option fst (destroyHandler 1 other_system ?v) = Some OK
    \<and> map_option (fst \<circ> snd) (destroyHandler 1 other_system ?v) = Some other_system"
    by simp
  have C: "getHandler 10 other_system = None" by (simp add: getHandler_def other_system_def)
  from live reg A B C show ?thesis by simp
qed

section \<open>Releasing the window array\<close>

lemma got_windows_value:
  "got_windows = (OK, Some (2, 3),
      example_world\<lparr>root_window := example_tree, arrays := [2 \<mapsto> [1, 3, 5]], next_ptr := 3\<rparr>)"
proof -
  have m: "matching_windows 7 example_tree = [1, 3, 5]"
    by (simp add: matching_windows_def example_tree_def pid_matches_def)
  show ?thesis
    unfolding got_windows_def getWindowsOfProcess_result
    by (simp add: m) (simp add: example_world_def)
qed

lemma freeWindowsOfProcess_live:
  "arrays w a = Some xs \<Longrightarrow>
     freeWindowsOfProcess (Some a) s w = Some (OK, w\<lparr>arrays := (arrays w)(a := None)\<rparr>)"
  by (simp add: freeWindowsOfProcess_def delete_array_def)

lemma freeWindowsOfProcess_released:
  "arrays w a = None \<Longrightarrow> freeWindowsOfProcess (Some a) s w = None"
  by (simp add: freeWindowsOfProcess_def delete_array_def)

text \<open>
  Claim C7, as stated: a second \<^verbatim>\<open>freeWindowsOfProcess\<close> on an array that
  \<^verbatim>\<open>getWindowsOfProcess\<close> returned and that was freed once is rejected or flagged, so
  that no buffer is released twice. The code keeps no record of the arrays it has handed
  out or released: the first call frees the array and returns \<^verbatim>\<open>OK\<close>, and the second
  call is not answered with an error code; it runs \<^verbatim>\<open>delete[]\<close> on the released
  array, which is undefined.
\<close>

theorem freeWindowsOfProcess_double_free_counterexample:
  "fst (snd got_windows) = Some (2, 3)
   \<and> freeWindowsOfProcess (Some 2) example_system (snd (snd got_windows))
       = Some (OK, example_world\<lparr>root_window := example_tree, next_ptr := 3\<rparr>)
   \<and> freeWindowsOfProcess (Some 2) example_system
        (example_world\<lparr>root_window := example_tree, next_ptr := 3\<rparr>) = None"
  by (simp add: got_windows_value freeWindowsOfProcess_def delete_array_def example_world_def)

text \<open>
  Claim C7, amended. \<^verbatim>\<open>freeWindowsOfProcess\<close> with a null pointer returns
  \<^verbatim>\<open>ERROR_NULL_POINTER\<close> and releases nothing. With the address of a live array it
  frees that array, touches no other, and returns \<^verbatim>\<open>OK\<close>. It does not check whether
  the array is still allocated: with any other address, such as that of an array already
  freed, it runs \<^verbatim>\<open>delete[]\<close> all the same, which is undefined.
\<close>

theorem freeWindowsOfProcess_null_rejected:
  "freeWindowsOfProcess None s w = Some (ERROR_NULL_POINTER, w)
   \<and> (arrays w a = Some xs \<longrightarrow>
        (\<exists>w'. freeWindowsOfProcess (Some a) s w = Some (OK, w')
           \<and> arrays w' a = None
           \<and> (\<forall>b. b \<noteq> a \<longrightarrow> arrays w' b = arrays w b)
           \<and> freeWindowsOfProcess (Some a) s w' = None))
   \<and> (arrays w a = None \<longrightarrow> freeWindowsOfProcess (Some a) s w = None)"
proof (intro conjI impI)
  show "freeWindowsOfProcess None s w = Some (ERROR_NULL_POINTER, w)"
    by (simp add: freeWindowsOfProcess_def)
next
  assume live: "arrays w a = Some xs"
  show "\<exists>w'. freeWindowsOfProcess (Some a) s w = Some (OK, w')
           \<and> arrays w' a = None
           \<and> (\<forall>b. b \<noteq> a \<longrightarrow> arrays w' b = arrays w b)
           \<and> freeWindowsOfProcess (Some a) s w' = None"
  proof (intro exI conjI)
    show "freeWindowsOfProcess (Some a) s w = Some (OK, w\<lparr>arrays := (arrays w)(a := None)\<rparr>)"
      by (rule freeWindowsOfProcess_live[OF live])
    show "freeWindowsOfProcess (Some a) s (w\<lparr>arrays := (arrays w)(a := None)\<rparr>) = None"
      by (rule freeWindowsOfProcess_released) simp
  qed simp_all
next
  assume "arrays w a = None"
  then show "freeWindowsOfProcess (Some a) s w = None" by (rule freeWindowsOfProcess_released)
qed

theorem freeWindowsOfProcess_null_rejected_witness:
  "arrays (snd (snd got_windows)) 2 = Some [1, 3, 5]
   \<and> freeWindowsOfProcess None example_system (snd (snd got_windows))
       = Some (ERROR_NULL_POINTER, snd (snd got_windows))
   \<and> map_option fst (freeWindowsOfProcess (Some 2) example_system (snd (snd got_windows))) = Some OK
   \<and> map_option (\<lambda>r. arrays (snd r) 2)
        (freeWindowsOfProcess (Some 2) example_system (snd (snd got_windows))) = Some None
   \<and> arrays (snd (snd got_windows)) 99 = None
   \<and> freeWindowsOfProcess (Some 99) example_system (snd (snd got_windows)) = None"
proof -
  let ?w = "snd (snd got_windows)"
  have live: "arrays ?w 2 = Some [1, 3, 5]" by (simp add: got_windows_value)
  have dead: "arrays ?w 99 = None" by (simp add: got_windows_value example_world_def)
  from freeWindowsOfProcess_null_rejected
         [where s = example_system and w = ?w and a = 2 and xs = "[1, 3, 5]"] live
  obtain w' where r:
    "freeWindowsOfProcess None example_system ?w = Some (ERROR_NULL_POINTER, ?w)"
    "freeWindowsOfProcess (Some 2) example_system ?w = Some (OK, w')"
    "arrays w' 2 = None"
    by blast
  from freeWindowsOfProcess_null_rejected
         [where s = example_system and w = ?w and a = 99] dead
  have d: "freeWindowsOfProcess (Some 99) example_system ?w = None"
    by blast
  from live dead r d show ?thesis by simp
qed

end
